theory Spec2Isabelle
  imports Complex_Main
begin

section \<open>Job lifecycle coordinator of the LCA extension (service\_worker.js)\<close>

text \<open>
  A shallow embedding of the background script: the job records kept under the
  \<^verbatim>\<open>jobs\<close> key of \<^verbatim>\<open>chrome.storage.local\<close>, the storage helpers
  \<^verbatim>\<open>saveJob\<close>, \<^verbatim>\<open>updateJob\<close>, \<^verbatim>\<open>getJobById\<close>, and the operations
  \<^verbatim>\<open>submitJob\<close>, \<^verbatim>\<open>pollJobStatus\<close>, \<^verbatim>\<open>getJobStatus\<close>, \<^verbatim>\<open>cancelJob\<close>,
  \<^verbatim>\<open>getMockResponse\<close> and \<^verbatim>\<open>handleMessage\<close>.

  Everything the script reads from outside is an argument of the model: the replies of
  \<^verbatim>\<open>fetch\<close>, the clock (\<^verbatim>\<open>Date.now()\<close>, \<^verbatim>\<open>toISOString()\<close>) and
  \<^verbatim>\<open>Math.random()\<close>. Everything it does to the outside besides writing the storage
  is returned as a list of effects: the HTTP requests it issues, the poll it starts and
  the timers it sets. A thrown \<^verbatim>\<open>Error\<close> is the value \<open>Inl message\<close>.
  The storage itself is taken to be reliable (its promises never reject).
\<close>

subsection \<open>Data\<close>

text \<open>JSON values. Numbers are exact rationals; \<open>JNull\<close> also stands for \<^verbatim>\<open>null\<close> fields.\<close>

datatype json =
    JNull
  | JBool bool
  | JNum rat
  | JStr string
  | JArr "json list"
  | JObj "(string \<times> json) list"

text \<open>Property access \<^verbatim>\<open>o.k\<close> on a parsed object: \<open>None\<close> is \<^verbatim>\<open>undefined\<close>.\<close>

fun jget :: "string \<Rightarrow> json \<Rightarrow> json option" where
  "jget k (JObj kvs) = map_of kvs k"
| "jget k v = None"

text \<open>
  The job object of \<^verbatim>\<open>submitJob\<close> (lines 76-89) with the two fields added later,
  \<^verbatim>\<open>backendJobId\<close> (line 113) and \<^verbatim>\<open>progress\<close> (line 182). The field
  \<^verbatim>\<open>id\<close> is \<open>id_job\<close> here. \<open>status\<close> is a string, as in the script: a poll stores
  whatever status string the backend sent. \<open>None\<close> is \<^verbatim>\<open>null\<close> or \<^verbatim>\<open>undefined\<close>.
\<close>

record job =
  id_job :: string
  url :: "json option"
  payload :: "(string \<times> json) list"
  status :: string
  createdAt :: string
  updatedAt :: string
  retries :: nat
  error :: "string option"
  result :: json
  backendJobId :: "string option"
  progress :: "nat option"

text \<open>The keys of \<^verbatim>\<open>chrome.storage.local\<close> the script uses. A missing \<^verbatim>\<open>jobs\<close> key
  reads as the empty list (\<^verbatim>\<open>const { jobs = [] }\<close>).\<close>

record storage =
  jobs :: "job list"
  backendUrl :: "string option"
  apiKey :: "string option"

text \<open>
  What \<^verbatim>\<open>await fetch(...)\<close> gives: the promise rejects with a message (no network), or it
  resolves to a response with \<^verbatim>\<open>ok\<close>, \<^verbatim>\<open>status\<close>, \<^verbatim>\<open>statusText\<close> and the outcome
  of \<^verbatim>\<open>response.json()\<close>, which is \<open>Inl message\<close> when the body cannot be used (it is
  not JSON, or it is not an object whose fields can be read) and the decoded body
  otherwise. The bodies are typed after the HTTP contract of the README.
\<close>

datatype 'a reply =
    Rejected string
  | Resolved (ok: bool) (http_status: nat) (statusText: string) (json_body: "string + 'a")

datatype statusData =
  StatusData (sd_status: string) (sd_progress: "nat option") (sd_error: "string option")

datatype submitData =
  SubmitData (sd_job_id: "string option")

text \<open>Effects other than storage writes, in the order the script causes them:
  \<open>Request method url\<close> is a call of \<^verbatim>\<open>fetch\<close>; \<open>Poll jobId backendUrl attempt\<close> is the direct
  call of \<^verbatim>\<open>pollJobStatus\<close> at the end of a submission; \<open>Timer delay jobId backendUrl attempt\<close>
  is \<^verbatim>\<open>setTimeout(() => pollJobStatus(jobId, backendUrl, apiKey, attempt), delay)\<close>.\<close>

datatype effect =
    Request string string
  | Poll string string nat
  | Timer rat string string nat

text \<open>The answers to the messages of \<^verbatim>\<open>handleMessage\<close> (each has \<^verbatim>\<open>success: true\<close>).\<close>

datatype response =
    SubmitResult string string
  | MockSubmitResult string (response_result: json)
  | StatusResult string "nat option" (response_result: json) "string option"
  | CancelResult
  | MockResponse (response_result: json)

datatype request =
    SubmitJob "(string \<times> json) list" bool
  | GetJobStatus string
  | CancelJob string
  | GetMockResponse
  | UnknownAction string

text \<open>The readings a call of \<^verbatim>\<open>handleMessage\<close> takes from the world: the clock of
  \<^verbatim>\<open>getMockResponse\<close> and of \<^verbatim>\<open>generateJobId\<close>, the random part of the id, the
  successive \<^verbatim>\<open>new Date().toISOString()\<close> strings, and the reply to the submit request.\<close>

record env =
  mockNowMs :: nat
  idNowMs :: nat
  idRandom :: string
  isoNow1 :: string
  isoNow2 :: string
  isoNow3 :: string
  submitReply :: "submitData reply"

text \<open>The readings of one call of \<^verbatim>\<open>pollJobStatus\<close>: the clock, the reply to the status
  request and the reply the result request gets if it is issued.\<close>

record tick =
  pollNow :: string
  statusReply :: "statusData reply"
  resultReply :: "json reply"

subsection \<open>Configuration (lines 7-12)\<close>

definition MAX_RETRIES :: nat where
  "MAX_RETRIES = 3"

definition POLL_INTERVAL_MS :: rat where
  "POLL_INTERVAL_MS = 2000"

definition POLL_MAX_ATTEMPTS :: nat where
  "POLL_MAX_ATTEMPTS = 60"

definition BACKOFF_MULTIPLIER :: rat where
  "BACKOFF_MULTIPLIER = 3 / 2"

subsection \<open>JavaScript idioms\<close>

text \<open>\<^verbatim>\<open>a || b\<close> on an optional string: \<^verbatim>\<open>undefined\<close>, \<^verbatim>\<open>null\<close> and \<^verbatim>\<open>''\<close> are falsy.\<close>

definition falsy :: "string option \<Rightarrow> bool" where
  "falsy a = (a = None \<or> a = Some [])"

definition orElse :: "string option \<Rightarrow> string \<Rightarrow> string" where
  "orElse a b = (case a of None \<Rightarrow> b | Some s \<Rightarrow> if s = [] then b else s)"

text \<open>A natural number in decimal, as string concatenation prints it.\<close>

fun show_nat :: "nat \<Rightarrow> string" where
  "show_nat n =
     (if n < 10 then [''0123456789'' ! n]
      else show_nat (n div 10) @ [''0123456789'' ! (n mod 10)])"

declare show_nat.simps [simp del]

text \<open>\<^verbatim>\<open>jobs.findIndex(p)\<close>: \<open>None\<close> is the script's \<open>-1\<close>.\<close>

fun findIndex :: "('a \<Rightarrow> bool) \<Rightarrow> 'a list \<Rightarrow> nat option" where
  "findIndex p [] = None"
| "findIndex p (x # xs) = (if p x then Some 0 else map_option Suc (findIndex p xs))"

text \<open>\<^verbatim>\<open>{...payload, job_id: jobId}\<close>: an existing key keeps its place, a new one goes last.\<close>

fun setKey :: "string \<Rightarrow> json \<Rightarrow> (string \<times> json) list \<Rightarrow> (string \<times> json) list" where
  "setKey k v [] = [(k, v)]"
| "setKey k v (p # ps) = (if fst p = k then (k, v) # ps else p # setKey k v ps)"

subsection \<open>Storage helpers (lines 315-334)\<close>

definition saveJob :: "storage \<Rightarrow> job \<Rightarrow> storage" where
  "saveJob st j = st\<lparr>jobs := jobs st @ [j]\<rparr>"

definition updateJob :: "storage \<Rightarrow> job \<Rightarrow> storage" where
  "updateJob st updatedJob =
     (case findIndex (\<lambda>j. id_job j = id_job updatedJob) (jobs st) of
        None \<Rightarrow> st
      | Some index \<Rightarrow> st\<lparr>jobs := (jobs st)[index := updatedJob]\<rparr>)"

definition getJobById :: "storage \<Rightarrow> string \<Rightarrow> job option" where
  "getJobById st jobId = List.find (\<lambda>j. id_job j = jobId) (jobs st)"

subsection \<open>Utility (lines 338-340)\<close>

text \<open>\<open>ms\<close> is \<^verbatim>\<open>Date.now()\<close>, \<open>rnd\<close> is \<^verbatim>\<open>Math.random().toString(36).substr(2, 9)\<close>.\<close>

definition generateJobId :: "nat \<Rightarrow> string \<Rightarrow> string" where
  "generateJobId ms rnd = ''job-'' @ show_nat ms @ ''-'' @ rnd"

subsection \<open>getMockResponse (lines 267-311)\<close>

text \<open>The first recommendation holds the character U+2082 (subscript two), written here
  as its three UTF-8 bytes.\<close>

definition getMockResponse :: "nat \<Rightarrow> response" where
  "getMockResponse ms = MockResponse (JObj [
     (''job_id'', JStr (''mock-'' @ show_nat ms)),
     (''material'', JStr ''aluminium''),
     (''co2_kg'', JNum (12345 / 100)),
     (''circularity_score'', JNum 67),
     (''recycled_percent'', JNum 30),
     (''recommendations'', JArr [
        JStr (''Increase recycled content to 50% to reduce CO''
              @ [CHR 0xE2, CHR 0x82, CHR 0x82] @ '' emissions by 25%''),
        JStr ''Switch to renewable energy sources for production'',
        JStr ''Optimize transportation routes to reduce distance by 20%'',
        JStr ''Implement closed-loop recycling system'']),
     (''raw_json'', JObj [
        (''material_composition'', JObj [
           (''primary_material'', JStr ''aluminium''),
           (''alloy_type'', JStr ''6061''),
           (''recycled_content'', JNum 30),
           (''virgin_content'', JNum 70)]),
        (''energy_analysis'', JObj [
           (''total_energy_kwh'', JNum 100),
           (''renewable_percentage'', JNum 45),
           (''grid_intensity_gco2_kwh'', JNum 400)]),
        (''transport_analysis'', JObj [
           (''distance_km'', JNum 50),
           (''mode'', JStr ''truck''),
           (''emissions_kg'', JNum (155 / 10))]),
        (''lifecycle_phases'', JObj [
           (''extraction'', JNum (452 / 10)),
           (''processing'', JNum (528 / 10)),
           (''transport'', JNum (155 / 10)),
           (''use_phase'', JNum 0),
           (''end_of_life'', JNum 10)])])])"

subsection \<open>submitJob (lines 48-138)\<close>

text \<open>The catch block of lines 125-133: the job, already saved, is marked as failed and the
  error is thrown on to the caller.\<close>

definition submitFailed ::
  "storage \<Rightarrow> job \<Rightarrow> string \<Rightarrow> string \<Rightarrow> effect list
     \<Rightarrow> storage \<times> (string + response) \<times> effect list" where
  "submitFailed st j message now es =
     (updateJob st (j\<lparr>status := ''error'', error := Some message, updatedAt := now\<rparr>),
      Inl message, es)"

definition submitJob ::
  "storage \<Rightarrow> (string \<times> json) list \<Rightarrow> bool \<Rightarrow> env
     \<Rightarrow> storage \<times> (string + response) \<times> effect list" where
  "submitJob st payload_in mockMode e =
     (if mockMode then
        (st,
         Inr (MockSubmitResult (generateJobId (idNowMs e) (idRandom e))
                (response_result (getMockResponse (mockNowMs e)))),
         [])
      else if falsy (backendUrl st) then
        (st, Inl ''Backend URL not configured. Please set it in Options.'', [])
      else if falsy (apiKey st) then
        (st, Inl ''API Key not configured. Please set it in Options.'', [])
      else
        let base = orElse (backendUrl st) [];
            jobId = generateJobId (idNowMs e) (idRandom e);
            j = \<lparr>id_job = jobId,
                 url = map_of payload_in ''url'',
                 payload = setKey ''job_id'' (JStr jobId) payload_in,
                 status = ''pending'',
                 createdAt = isoNow1 e,
                 updatedAt = isoNow2 e,
                 retries = 0,
                 error = None,
                 result = JNull,
                 backendJobId = None,
                 progress = None\<rparr>;
            st1 = saveJob st j;
            sent = [Request ''POST'' (base @ ''/lca/submit'')]
        in case submitReply e of
             Rejected message \<Rightarrow> submitFailed st1 j message (isoNow3 e) sent
           | Resolved is_ok code text body \<Rightarrow>
               if is_ok then
                 (case body of
                    Inl message \<Rightarrow> submitFailed st1 j message (isoNow3 e) sent
                  | Inr data \<Rightarrow>
                      let j2 = j\<lparr>status := ''pending'',
                                  backendJobId := Some (orElse (sd_job_id data) jobId),
                                  updatedAt := isoNow3 e\<rparr>
                      in (updateJob st1 j2,
                          Inr (SubmitResult jobId (orElse (sd_job_id data) jobId)),
                          sent @ [Poll jobId base 0]))
               else
                 submitFailed st1 j
                   (''Backend returned '' @ show_nat code @ '': '' @ text) (isoNow3 e) sent)"

subsection \<open>pollJobStatus (lines 143-214)\<close>

text \<open>The delay of a timer whose exponent is \<open>k\<close>:
  \<^verbatim>\<open>CONFIG.POLL_INTERVAL_MS * Math.pow(CONFIG.BACKOFF_MULTIPLIER, k)\<close>.\<close>

definition backoff :: "nat \<Rightarrow> rat" where
  "backoff k = POLL_INTERVAL_MS * BACKOFF_MULTIPLIER ^ k"

text \<open>
  A call of \<^verbatim>\<open>pollJobStatus\<close> is suspended while its requests are in flight, and other
  calls of the script run in between. The model therefore has two halves.

  \<open>pollBegin\<close> is the part up to the status request (lines 144-172): the time-out branch, the
  look-up of the job and the test for a terminal status. It returns the storage and, when
  the status request has been issued, the job object the call holds on to.

  \<open>pollResume\<close> is the part from the reply onwards (lines 174-213). It is given the storage as
  it is at that moment, and the job object \<open>pollBegin\<close> returned.
\<close>

definition pollBegin ::
  "storage \<Rightarrow> string \<Rightarrow> string \<Rightarrow> nat \<Rightarrow> string
     \<Rightarrow> storage \<times> job option \<times> effect list" where
  "pollBegin st jobId base attempt now =
     (if attempt \<ge> POLL_MAX_ATTEMPTS then
        (case getJobById st jobId of
           None \<Rightarrow> (st, None, [])
         | Some j \<Rightarrow>
             if status j = ''pending'' \<or> status j = ''running'' then
               (updateJob st (j\<lparr>status := ''error'',
                                  error := Some ''Timeout: Job did not complete in time'',
                                  updatedAt := now\<rparr>),
                None, [])
             else (st, None, []))
      else
        (case getJobById st jobId of
           None \<Rightarrow> (st, None, [])
         | Some j \<Rightarrow>
             if status j = ''done'' \<or> status j = ''error'' then (st, None, [])
             else (st, Some j,
                   [Request ''GET''
                      (base @ ''/lca/status/'' @ orElse (backendJobId j) (id_job j))])))"

text \<open>The catch block (lines 207-213): nothing is stored, the next call is scheduled.\<close>

definition pollRetry ::
  "storage \<Rightarrow> string \<Rightarrow> string \<Rightarrow> nat \<Rightarrow> effect list \<Rightarrow> storage \<times> effect list" where
  "pollRetry st jobId base attempt es =
     (st, es @ [Timer (backoff attempt) jobId base (attempt + 1)])"

text \<open>Lines 200-206: the job object is written back, and the next call is scheduled if
  its status is still \<^verbatim>\<open>running\<close> or \<^verbatim>\<open>pending\<close>.\<close>

definition pollCommit ::
  "storage \<Rightarrow> job \<Rightarrow> string \<Rightarrow> string \<Rightarrow> nat \<Rightarrow> effect list \<Rightarrow> storage \<times> effect list" where
  "pollCommit st j jobId base attempt es =
     (updateJob st j,
      if status j = ''running'' \<or> status j = ''pending'' then
        es @ [Timer (backoff (min attempt 5)) jobId base (attempt + 1)]
      else es)"

definition pollResume ::
  "storage \<Rightarrow> job \<Rightarrow> string \<Rightarrow> string \<Rightarrow> nat \<Rightarrow> tick \<Rightarrow> storage \<times> effect list" where
  "pollResume st j jobId base attempt t =
     (case statusReply t of
        Rejected message \<Rightarrow> pollRetry st jobId base attempt []
      | Resolved is_ok code text body \<Rightarrow>
          if is_ok then
            (case body of
               Inl message \<Rightarrow> pollRetry st jobId base attempt []
             | Inr statusData \<Rightarrow>
                 let j1 = j\<lparr>status := sd_status statusData,
                             progress := sd_progress statusData,
                             updatedAt := pollNow t\<rparr>
                 in if sd_status statusData = ''done'' then
                      (let asked = [Request ''GET''
                             (base @ ''/lca/result/'' @ orElse (backendJobId j) (id_job j))]
                       in case resultReply t of
                            Rejected message \<Rightarrow> pollRetry st jobId base attempt asked
                          | Resolved r_ok r_code r_text r_body \<Rightarrow>
                              if r_ok then
                                (case r_body of
                                   Inl message \<Rightarrow> pollRetry st jobId base attempt asked
                                 | Inr v \<Rightarrow>
                                     pollCommit st (j1\<lparr>result := v\<rparr>) jobId base attempt asked)
                              else pollCommit st j1 jobId base attempt asked)
                    else if sd_status statusData = ''error'' then
                      pollCommit st
                        (j1\<lparr>error := Some (orElse (sd_error statusData) ''Unknown error'')\<rparr>)
                        jobId base attempt []
                    else pollCommit st j1 jobId base attempt [])
          else pollRetry st jobId base attempt [])"

text \<open>A call of \<^verbatim>\<open>pollJobStatus\<close> during which nothing else touches the storage.\<close>

definition pollJobStatus ::
  "storage \<Rightarrow> string \<Rightarrow> string \<Rightarrow> nat \<Rightarrow> tick \<Rightarrow> storage \<times> effect list" where
  "pollJobStatus st jobId base attempt t =
     (case pollBegin st jobId base attempt (pollNow t) of
        (st1, None, es) \<Rightarrow> (st1, es)
      | (st1, Some j, es) \<Rightarrow>
          (case pollResume st1 j jobId base attempt t of
             (st2, es2) \<Rightarrow> (st2, es @ es2)))"

text \<open>The attempt number of the timer a call has set, if it has set one.\<close>

fun nextAttempt :: "effect list \<Rightarrow> nat option" where
  "nextAttempt [] = None"
| "nextAttempt (Timer d jobId base a # es) = Some a"
| "nextAttempt (e # es) = nextAttempt es"

text \<open>
  The poll loop of one job, run on its own: \<open>pollRun n\<close> lets the first \<open>n\<close> calls of the
  chain happen, starting with the call for \<open>attempt\<close>; each call that sets a timer is followed
  by the call the timer makes. \<open>world a\<close> holds the readings of the call for attempt \<open>a\<close>.
  The result is the storage, the effects so far and the attempt number of the timer that
  is still pending, \<open>None\<close> when the chain has ended.
\<close>

fun pollRun ::
  "nat \<Rightarrow> storage \<Rightarrow> string \<Rightarrow> string \<Rightarrow> nat \<Rightarrow> (nat \<Rightarrow> tick)
     \<Rightarrow> storage \<times> effect list \<times> nat option" where
  "pollRun 0 st jobId base attempt world = (st, [], Some attempt)"
| "pollRun (Suc n) st jobId base attempt world =
     (case pollJobStatus st jobId base attempt (world attempt) of
        (st1, es) \<Rightarrow>
          (case nextAttempt es of
             None \<Rightarrow> (st1, es, None)
           | Some a \<Rightarrow>
               (case pollRun n st1 jobId base a world of
                  (st2, es2, pending) \<Rightarrow> (st2, es @ es2, pending))))"

text \<open>The status reply is a success (\<^verbatim>\<open>response.ok\<close>) whose body says \<^verbatim>\<open>running\<close>.\<close>

fun reportsRunning :: "statusData reply \<Rightarrow> bool" where
  "reportsRunning (Resolved is_ok code text (Inr statusData)) =
     (is_ok \<and> sd_status statusData = ''running'')"
| "reportsRunning r = False"

text \<open>The number of requests among the effects.\<close>

fun requests :: "effect list \<Rightarrow> nat" where
  "requests [] = 0"
| "requests (Request m u # es) = Suc (requests es)"
| "requests (e # es) = requests es"

subsection \<open>getJobStatus (lines 219-238) and cancelJob (lines 243-262)\<close>

definition getJobStatus :: "storage \<Rightarrow> string \<Rightarrow> string + response" where
  "getJobStatus st jobId =
     (case getJobById st jobId of
        None \<Rightarrow> Inl ''Job not found''
      | Some j \<Rightarrow> Inr (StatusResult (status j) (progress j) (result j) (error j)))"

definition cancelJob :: "storage \<Rightarrow> string \<Rightarrow> string \<Rightarrow> storage \<times> (string + response)" where
  "cancelJob st jobId now =
     (case getJobById st jobId of
        None \<Rightarrow> (st, Inl ''Job not found'')
      | Some j \<Rightarrow>
          (updateJob st (j\<lparr>status := ''error'',
                             error := Some ''Cancelled by user'',
                             updatedAt := now\<rparr>),
           Inr CancelResult))"

subsection \<open>handleMessage (lines 26-43)\<close>

definition handleMessage ::
  "storage \<Rightarrow> request \<Rightarrow> env \<Rightarrow> storage \<times> (string + response) \<times> effect list" where
  "handleMessage st req e =
     (case req of
        SubmitJob payload_in mockMode \<Rightarrow> submitJob st payload_in mockMode e
      | GetJobStatus jobId \<Rightarrow> (st, getJobStatus st jobId, [])
      | CancelJob jobId \<Rightarrow>
          (case cancelJob st jobId (isoNow1 e) of (st1, r) \<Rightarrow> (st1, r, []))
      | GetMockResponse \<Rightarrow> (st, Inr (getMockResponse (mockNowMs e)), [])
      | UnknownAction a \<Rightarrow> (st, Inl (''Unknown action: '' @ a), []))"

subsection \<open>Sample data\<close>

text \<open>A job record with the given id and status and nothing else of note, a storage
  holding given records, and readings of the world, for the concrete runs below.\<close>

definition sampleJob :: "string \<Rightarrow> string \<Rightarrow> job" where
  "sampleJob jobId s =
     \<lparr>id_job = jobId, url = None, payload = [], status = s,
      createdAt = ''2024-01-01T00:00:00.000Z'', updatedAt = ''2024-01-01T00:00:00.000Z'',
      retries = 0, error = None, result = JNull, backendJobId = None, progress = None\<rparr>"

definition sampleDoneJob :: "string \<Rightarrow> job" where
  "sampleDoneJob jobId =
     (sampleJob jobId ''done'')\<lparr>result := JObj [(''material'', JStr ''steel''), (''co2_kg'', JNum 80)],
                                progress := Some 100\<rparr>"

definition sampleStorage :: "job list \<Rightarrow> storage" where
  "sampleStorage js = \<lparr>jobs = js, backendUrl = Some ''https://lca.example'', apiKey = Some ''secret''\<rparr>"

definition sampleEnv :: "submitData reply \<Rightarrow> env" where
  "sampleEnv r =
     \<lparr>mockNowMs = 1700000000000, idNowMs = 1700000000001, idRandom = ''k3x9q2m1z'',
      isoNow1 = ''2024-01-01T00:00:01.000Z'', isoNow2 = ''2024-01-01T00:00:01.001Z'',
      isoNow3 = ''2024-01-01T00:00:02.000Z'', submitReply = r\<rparr>"

definition sampleTick :: "statusData reply \<Rightarrow> json reply \<Rightarrow> tick" where
  "sampleTick s r = \<lparr>pollNow = ''2024-01-01T00:00:05.000Z'', statusReply = s, resultReply = r\<rparr>"

text \<open>A status reply with HTTP 200 and the given status string.\<close>

definition statusOk :: "string \<Rightarrow> statusData reply" where
  "statusOk s = Resolved True 200 ''OK'' (Inr (StatusData s None None))"

section \<open>Facts about the storage helpers\<close>

lemma findIndex_None_iff: "findIndex p xs = None \<longleftrightarrow> List.find p xs = None"
  by (induction xs) auto

lemma find_holds: "List.find p xs = Some x \<Longrightarrow> p x"
  by (induction xs) (auto split: if_splits)

lemma find_None_set: "List.find p xs = None \<longleftrightarrow> (\<forall>x \<in> set xs. \<not> p x)"
  by (induction xs) auto

lemma findIndex_Some_find:
  "findIndex p xs = Some i \<Longrightarrow> i < length xs \<and> List.find p xs = Some (xs ! i)"
  by (induction xs arbitrary: i) (auto split: if_splits)

lemma find_Some_findIndex:
  "List.find p xs = Some x \<Longrightarrow> \<exists>i. findIndex p xs = Some i"
  by (induction xs) (auto split: if_splits)

lemma find_update_hit:
  "findIndex p xs = Some i \<Longrightarrow> p u \<Longrightarrow> List.find p (xs[i := u]) = Some u"
  by (induction xs arbitrary: i) (auto split: if_splits)

lemma find_update_miss:
  "i < length xs \<Longrightarrow> \<not> q (xs ! i) \<Longrightarrow> \<not> q u \<Longrightarrow> List.find q (xs[i := u]) = List.find q xs"
proof (induction xs arbitrary: i)
  case Nil
  then show ?case by simp
next
  case (Cons x xs)
  then show ?case by (cases i) auto
qed

lemma find_snoc:
  "List.find p (xs @ [y]) = (case List.find p xs of Some x \<Rightarrow> Some x | None \<Rightarrow> if p y then Some y else None)"
  by (induction xs) auto

lemma getJobById_id: "getJobById st a = Some j \<Longrightarrow> id_job j = a"
  unfolding getJobById_def by (drule find_holds) simp

lemma getJobById_None_iff: "getJobById st a = None \<longleftrightarrow> a \<notin> id_job ` set (jobs st)"
  unfolding getJobById_def by (auto simp: find_None_set)

lemma updateJob_absent: "getJobById st (id_job u) = None \<Longrightarrow> updateJob st u = st"
  by (simp add: updateJob_def getJobById_def findIndex_None_iff [symmetric])

lemma getJobById_updateJob_same:
  assumes "getJobById st (id_job u) = Some j"
  shows "getJobById (updateJob st u) (id_job u) = Some u"
proof -
  from assms obtain i where i: "findIndex (\<lambda>j. id_job j = id_job u) (jobs st) = Some i"
    unfolding getJobById_def by (blast dest: find_Some_findIndex)
  then show ?thesis
    by (simp add: updateJob_def getJobById_def find_update_hit)
qed

lemma getJobById_updateJob_other:
  assumes "id_job u \<noteq> a"
  shows "getJobById (updateJob st u) a = getJobById st a"
proof (cases "findIndex (\<lambda>j. id_job j = id_job u) (jobs st)")
  case None
  then show ?thesis by (simp add: updateJob_def)
next
  case (Some i)
  from findIndex_Some_find [OF Some]
  have len: "i < length (jobs st)"
    and hit: "List.find (\<lambda>j. id_job j = id_job u) (jobs st) = Some (jobs st ! i)"
    by simp_all
  from find_holds [OF hit] have "id_job (jobs st ! i) = id_job u" .
  with assms len Some show ?thesis
    by (simp add: updateJob_def getJobById_def find_update_miss)
qed

lemma getJobById_saveJob:
  "getJobById (saveJob st j) a =
     (case getJobById st a of Some x \<Rightarrow> Some x | None \<Rightarrow> if id_job j = a then Some j else None)"
  by (simp add: getJobById_def saveJob_def find_snoc)

section \<open>Facts about the resumed half of a poll\<close>

text \<open>Whatever the replies, the resumed half writes at most one record, whose id is that of
  the job object it holds.\<close>

lemma pollResume_storage:
  assumes "Q st" and "\<And>j'. id_job j' = id_job j \<Longrightarrow> Q (updateJob st j')"
  shows "Q (fst (pollResume st j jobId base attempt t))"
  unfolding pollResume_def
  by (auto simp: pollRetry_def pollCommit_def Let_def assms split: reply.splits sum.splits)

section \<open>Terminal records, cancellation and records of other jobs\<close>

lemma pollJobStatus_terminal:
  assumes "getJobById st jobId = Some j" and "status j = ''done'' \<or> status j = ''error''"
  shows "pollJobStatus st jobId base attempt t = (st, [])"
  using assms by (auto simp: pollJobStatus_def pollBegin_def)

lemma pollRun_terminal:
  assumes "getJobById st jobId = Some j" and "status j = ''done'' \<or> status j = ''error''"
  shows "pollRun (Suc n) st jobId base attempt world = (st, [], None)"
  by (simp add: pollJobStatus_terminal [OF assms])

lemma cancelJob_found:
  assumes "getJobById st jobId = Some j"
  shows "cancelJob st jobId now =
           (updateJob st (j\<lparr>status := ''error'', error := Some ''Cancelled by user'',
                             updatedAt := now\<rparr>), Inr CancelResult)"
    and "getJobById (fst (cancelJob st jobId now)) jobId =
           Some (j\<lparr>status := ''error'', error := Some ''Cancelled by user'', updatedAt := now\<rparr>)"
proof -
  let ?c = "j\<lparr>status := ''error'', error := Some ''Cancelled by user'', updatedAt := now\<rparr>"
  show eq: "cancelJob st jobId now = (updateJob st ?c, Inr CancelResult)"
    using assms by (simp add: cancelJob_def)
  have id: "id_job ?c = jobId"
    using getJobById_id [OF assms] by simp
  have "getJobById st (id_job ?c) = Some j"
    using assms id by simp
  then have "getJobById (updateJob st ?c) (id_job ?c) = Some ?c"
    by (rule getJobById_updateJob_same)
  then show "getJobById (fst (cancelJob st jobId now)) jobId = Some ?c"
    unfolding eq id by simp
qed

lemma cancelJob_missing:
  "getJobById st jobId = None \<Longrightarrow> cancelJob st jobId now = (st, Inl ''Job not found'')"
  by (simp add: cancelJob_def)

lemma cancelJob_frame:
  assumes "a \<noteq> jobId"
  shows "getJobById (fst (cancelJob st jobId now)) a = getJobById st a"
proof (cases "getJobById st jobId")
  case None
  then show ?thesis by (simp add: cancelJob_def)
next
  case (Some j)
  from getJobById_id [OF Some] assms show ?thesis
    by (simp add: cancelJob_def Some getJobById_updateJob_other)
qed

lemma pollResume_frame:
  assumes "id_job j2 \<noteq> a"
  shows "getJobById (fst (pollResume st j2 jobId base attempt t)) a = getJobById st a"
  by (rule pollResume_storage) (simp_all add: assms getJobById_updateJob_other)

lemma pollJobStatus_frame:
  assumes "other \<noteq> a"
  shows "getJobById (fst (pollJobStatus st other base attempt t)) a = getJobById st a"
proof (cases "getJobById st other")
  case None
  then show ?thesis by (simp add: pollJobStatus_def pollBegin_def)
next
  case (Some j2)
  from getJobById_id [OF Some] assms have ne: "id_job j2 \<noteq> a" by simp
  have res: "getJobById (fst (pollResume st j2 other base attempt t)) a = getJobById st a"
    by (rule pollResume_frame [OF ne])
  show ?thesis
    using ne res
    by (auto simp: pollJobStatus_def pollBegin_def Some getJobById_updateJob_other
          split: prod.splits)
qed

lemma submitJob_frame:
  assumes "getJobById st a = Some j" and "generateJobId (idNowMs e) (idRandom e) \<noteq> a"
  shows "getJobById (fst (submitJob st payload_in mockMode e)) a = Some j"
  using assms
  by (simp add: submitJob_def submitFailed_def Let_def getJobById_updateJob_other
        getJobById_saveJob split: reply.splits sum.splits)

lemma handleMessage_cancel:
  "fst (handleMessage st (CancelJob jobId) e) = fst (cancelJob st jobId (isoNow1 e))"
  by (simp add: handleMessage_def split: prod.splits)

lemma handleMessage_frame:
  assumes "getJobById st a = Some j"
    and "req \<noteq> CancelJob a"
    and "generateJobId (idNowMs e) (idRandom e) \<noteq> a"
  shows "getJobById (fst (handleMessage st req e)) a = Some j"
proof (cases req)
  case (SubmitJob payload_in mockMode)
  then show ?thesis
    using submitJob_frame [OF assms(1) assms(3)] by (simp add: handleMessage_def)
next
  case (GetJobStatus jobId)
  then show ?thesis using assms(1) by (simp add: handleMessage_def)
next
  case (CancelJob jobId)
  with assms(2) have "a \<noteq> jobId" by simp
  from cancelJob_frame [OF this] assms(1) CancelJob show ?thesis
    by (simp add: handleMessage_cancel)
next
  case GetMockResponse
  then show ?thesis using assms(1) by (simp add: handleMessage_def)
next
  case (UnknownAction x)
  then show ?thesis using assms(1) by (simp add: handleMessage_def)
qed

section \<open>A chain of polls that are all answered with running\<close>

lemma requests_append: "requests (es @ fs) = requests es + requests fs"
  by (induction es rule: requests.induct) simp_all

lemma reportsRunning_cases:
  assumes "reportsRunning r"
  obtains code reason statusData
  where "r = Resolved True code reason (Inr statusData)" and "sd_status statusData = ''running''"
  using assms by (cases r rule: reportsRunning.cases) auto

lemma pollJobStatus_running:
  assumes found: "getJobById st jobId = Some j"
    and live: "status j = ''pending'' \<or> status j = ''running''"
    and early: "attempt < POLL_MAX_ATTEMPTS"
    and running: "reportsRunning (statusReply t)"
  shows "\<exists>j' url.
           pollJobStatus st jobId base attempt t =
             (updateJob st j',
              [Request ''GET'' url, Timer (backoff (min attempt 5)) jobId base (attempt + 1)])
           \<and> id_job j' = jobId \<and> status j' = ''running'' \<and> error j' = error j"
proof -
  from running obtain code reason statusData
    where r: "statusReply t = Resolved True code reason (Inr statusData)"
      and s: "sd_status statusData = ''running''"
    by (rule reportsRunning_cases)
  let ?j = "j\<lparr>status := ''running'', progress := sd_progress statusData, updatedAt := pollNow t\<rparr>"
  from live have unfinished: "status j \<noteq> ''done''" "status j \<noteq> ''error''"
    by auto
  have "pollJobStatus st jobId base attempt t =
          (updateJob st ?j,
           [Request ''GET'' (base @ ''/lca/status/'' @ orElse (backendJobId j) (id_job j)),
            Timer (backoff (min attempt 5)) jobId base (attempt + 1)])"
    using found unfinished early r s
    by (simp add: pollJobStatus_def pollBegin_def pollResume_def pollCommit_def)
  moreover have "id_job ?j = jobId"
    using getJobById_id [OF found] by simp
  ultimately show ?thesis by force
qed

lemma pollJobStatus_timeout:
  assumes found: "getJobById st jobId = Some j"
    and live: "status j = ''pending'' \<or> status j = ''running''"
    and late: "POLL_MAX_ATTEMPTS \<le> attempt"
  shows "pollJobStatus st jobId base attempt t =
           (updateJob st (j\<lparr>status := ''error'',
                              error := Some ''Timeout: Job did not complete in time'',
                              updatedAt := pollNow t\<rparr>), [])"
  using assms by (simp add: pollJobStatus_def pollBegin_def)

lemma pollRun_running:
  assumes "getJobById st jobId = Some j"
    and "status j = ''pending'' \<or> status j = ''running''"
    and "attempt + n \<le> POLL_MAX_ATTEMPTS"
    and "\<forall>a. reportsRunning (statusReply (world a))"
  shows "\<exists>st' es j'.
           pollRun n st jobId base attempt world = (st', es, Some (attempt + n))
           \<and> getJobById st' jobId = Some j'
           \<and> (status j' = ''pending'' \<or> status j' = ''running'')
           \<and> (0 < n \<longrightarrow> status j' = ''running'')
           \<and> requests es = n"
  using assms
proof (induction n arbitrary: st attempt j)
  case 0
  then show ?case by simp
next
  case (Suc n)
  from Suc.prems(3) have early: "attempt < POLL_MAX_ATTEMPTS" by simp
  from Suc.prems(4) have "reportsRunning (statusReply (world attempt))" by simp
  from pollJobStatus_running [OF Suc.prems(1) Suc.prems(2) early this]
  obtain j1 url where
    call: "pollJobStatus st jobId base attempt (world attempt) =
             (updateJob st j1,
              [Request ''GET'' url, Timer (backoff (min attempt 5)) jobId base (attempt + 1)])"
    and id1: "id_job j1 = jobId" and s1: "status j1 = ''running''"
    by blast
  have found1: "getJobById (updateJob st j1) jobId = Some j1"
    using getJobById_updateJob_same [of st j1 j] Suc.prems(1) id1 by simp
  have live1: "status j1 = ''pending'' \<or> status j1 = ''running''"
    using s1 by simp
  from Suc.prems(3) have bound: "(attempt + 1) + n \<le> POLL_MAX_ATTEMPTS" by simp
  from Suc.IH [OF found1 live1 bound Suc.prems(4)]
  obtain st' es j' where
    rest: "pollRun n (updateJob st j1) jobId base (attempt + 1) world
             = (st', es, Some (attempt + 1 + n))"
    and found': "getJobById st' jobId = Some j'"
    and live': "status j' = ''pending'' \<or> status j' = ''running''"
    and run': "0 < n \<longrightarrow> status j' = ''running''"
    and req': "requests es = n"
    by blast
  have "status j' = ''running''"
  proof (cases n)
    case 0
    with rest found' found1 have "j' = j1" by simp
    with s1 show ?thesis by simp
  next
    case (Suc m)
    with run' show ?thesis by simp
  qed
  with call rest found' live' req' show ?case
    by simp
qed

lemma pollRun_add:
  "pollRun (n + m) st jobId base attempt world =
     (case pollRun n st jobId base attempt world of
        (st1, es1, None) \<Rightarrow> (st1, es1, None)
      | (st1, es1, Some a) \<Rightarrow>
          (case pollRun m st1 jobId base a world of
             (st2, es2, pending) \<Rightarrow> (st2, es1 @ es2, pending)))"
proof (induction n arbitrary: st attempt)
  case 0
  then show ?case by (simp split: prod.splits)
next
  case (Suc n)
  then show ?case
    by (simp split: prod.splits option.splits)
qed

section \<open>The record update never inserts\<close>

text \<open>
  Claim C10. When no record of the storage has the id of the job object, \<^verbatim>\<open>updateJob\<close>
  leaves the storage exactly as it is: it never inserts. Hence, for a job the user has
  deleted, the late half of a poll whose request was in flight writes nothing, a whole
  poll call writes nothing and sets no timer, and \<^verbatim>\<open>cancelJob\<close> throws
  \<^verbatim>\<open>Job not found\<close> without writing.
\<close>

theorem updateJob_never_inserts:
  assumes "id_job u \<notin> id_job ` set (jobs st)"
  shows "updateJob st u = st
       \<and> fst (pollResume st u jobId base attempt t) = st
       \<and> pollJobStatus st (id_job u) base attempt t = (st, [])
       \<and> cancelJob st (id_job u) now = (st, Inl ''Job not found'')"
proof -
  from assms have none: "getJobById st (id_job u) = None"
    by (simp add: getJobById_None_iff)
  have upd: "updateJob st u' = st" if "id_job u' = id_job u" for u'
    using none that by (simp add: updateJob_absent)
  have "updateJob st u = st"
    by (simp add: upd)
  moreover have "fst (pollResume st u jobId base attempt t) = st"
    by (rule pollResume_storage) (simp_all add: upd)
  moreover have "pollJobStatus st (id_job u) base attempt t = (st, [])"
    using none by (simp add: pollJobStatus_def pollBegin_def)
  moreover have "cancelJob st (id_job u) now = (st, Inl ''Job not found'')"
    using none by (simp add: cancelJob_def)
  ultimately show ?thesis by simp
qed

theorem updateJob_never_inserts_witness:
  "id_job (sampleJob ''job-2'' ''running'') \<notin> id_job ` set (jobs (sampleStorage [sampleJob ''job-1'' ''done'']))
   \<and> updateJob (sampleStorage [sampleJob ''job-1'' ''done'']) (sampleJob ''job-2'' ''running'')
       = sampleStorage [sampleJob ''job-1'' ''done'']
   \<and> fst (pollResume (sampleStorage [sampleJob ''job-1'' ''done'']) (sampleJob ''job-2'' ''running'')
            ''job-2'' ''https://lca.example'' 3 (sampleTick (statusOk ''running'') (Rejected ''offline'')))
       = sampleStorage [sampleJob ''job-1'' ''done'']
   \<and> pollJobStatus (sampleStorage [sampleJob ''job-1'' ''done'']) ''job-2'' ''https://lca.example'' 3
         (sampleTick (statusOk ''running'') (Rejected ''offline''))
       = (sampleStorage [sampleJob ''job-1'' ''done''], [])
   \<and> cancelJob (sampleStorage [sampleJob ''job-1'' ''done'']) ''job-2'' ''2024-01-01T00:00:09.000Z''
       = (sampleStorage [sampleJob ''job-1'' ''done''], Inl ''Job not found'')"
proof -
  have h: "id_job (sampleJob ''job-2'' ''running'')
             \<notin> id_job ` set (jobs (sampleStorage [sampleJob ''job-1'' ''done'']))"
    by (simp add: sampleJob_def sampleStorage_def)
  have i: "id_job (sampleJob ''job-2'' ''running'') = ''job-2''"
    by (simp add: sampleJob_def)
  show ?thesis
    using h updateJob_never_inserts [OF h, of "''job-2''" "''https://lca.example''" 3
        "sampleTick (statusOk ''running'') (Rejected ''offline'')" "''2024-01-01T00:00:09.000Z''"]
    unfolding i by simp
qed

section \<open>Insert, overwrite in place, and reading back\<close>

text \<open>
  Claim C7 says that one operation, upsert, inserts a record whose id is new and overwrites
  in place a record whose id is in the collection, and that what it wrote is read back by
  \<^verbatim>\<open>getJobById\<close>. The script has two writes and neither is that operation.
  \<^verbatim>\<open>updateJob\<close>, the write of polls and of \<^verbatim>\<open>cancelJob\<close>, does nothing when the id
  is absent (lines 323-328): the record is not inserted and reading it back finds nothing.
  \<^verbatim>\<open>saveJob\<close> appends without looking (lines 316-318): given an id that is present it
  leaves the old record in place, adds a second one, and reading back returns the old one.
\<close>

theorem neither_store_write_is_an_upsert_counterexample:
  "getJobById (sampleStorage [sampleJob ''job-1'' ''done'']) ''job-2'' = None
   \<and> updateJob (sampleStorage [sampleJob ''job-1'' ''done'']) (sampleJob ''job-2'' ''running'')
       = sampleStorage [sampleJob ''job-1'' ''done'']
   \<and> getJobById
        (updateJob (sampleStorage [sampleJob ''job-1'' ''done'']) (sampleJob ''job-2'' ''running''))
        ''job-2'' = None
   \<and> getJobById (sampleStorage [sampleJob ''job-1'' ''pending'']) ''job-1''
       = Some (sampleJob ''job-1'' ''pending'')
   \<and> jobs (saveJob (sampleStorage [sampleJob ''job-1'' ''pending'']) (sampleJob ''job-1'' ''running''))
       = [sampleJob ''job-1'' ''pending'', sampleJob ''job-1'' ''running'']
   \<and> getJobById
        (saveJob (sampleStorage [sampleJob ''job-1'' ''pending'']) (sampleJob ''job-1'' ''running''))
        ''job-1'' = Some (sampleJob ''job-1'' ''pending'')
   \<and> sampleJob ''job-1'' ''pending'' \<noteq> sampleJob ''job-1'' ''running''"
  by (simp add: updateJob_def saveJob_def getJobById_def sampleStorage_def sampleJob_def)

text \<open>
  Claim C7, amended. \<^verbatim>\<open>saveJob\<close> always appends the record at the end of the
  collection; \<^verbatim>\<open>getJobById\<close> with its id then returns the first record with that id,
  which is the record written exactly when the id was not yet in the collection.
  \<^verbatim>\<open>updateJob\<close>, for an id in the collection, overwrites the record \<^verbatim>\<open>getJobById\<close>
  finds for that id at its position, the collection keeping its length and every other
  position, and \<^verbatim>\<open>getJobById\<close> reads back the record written, equal in every field;
  for an id not in the collection it leaves the storage as it is and does not insert.
\<close>

theorem saveJob_appends_updateJob_overwrites:
  "jobs (saveJob st r) = jobs st @ [r]
   \<and> getJobById (saveJob st r) (id_job r) =
       (case getJobById st (id_job r) of None \<Rightarrow> Some r | Some earlier \<Rightarrow> Some earlier)
   \<and> (id_job r \<notin> id_job ` set (jobs st) \<longrightarrow>
        getJobById (saveJob st r) (id_job r) = Some r
        \<and> updateJob st r = st
        \<and> getJobById (updateJob st r) (id_job r) = None)
   \<and> (id_job r \<in> id_job ` set (jobs st) \<longrightarrow>
        (\<exists>i < length (jobs st).
            id_job (jobs st ! i) = id_job r
            \<and> getJobById st (id_job r) = Some (jobs st ! i)
            \<and> jobs (updateJob st r) = (jobs st)[i := r])
        \<and> length (jobs (updateJob st r)) = length (jobs st)
        \<and> getJobById (updateJob st r) (id_job r) = Some r
        \<and> getJobById (saveJob st r) (id_job r) = getJobById st (id_job r))"
proof (intro conjI impI)
  show "jobs (saveJob st r) = jobs st @ [r]"
    by (simp add: saveJob_def)
  show "getJobById (saveJob st r) (id_job r) =
       (case getJobById st (id_job r) of None \<Rightarrow> Some r | Some earlier \<Rightarrow> Some earlier)"
    by (simp add: getJobById_saveJob split: option.splits)
next
  assume new: "id_job r \<notin> id_job ` set (jobs st)"
  then have none: "getJobById st (id_job r) = None"
    by (simp add: getJobById_None_iff)
  then show "getJobById (saveJob st r) (id_job r) = Some r"
    by (simp add: getJobById_saveJob)
  from none show same: "updateJob st r = st"
    by (rule updateJob_absent)
  from none show "getJobById (updateJob st r) (id_job r) = None"
    unfolding same .
next
  assume old: "id_job r \<in> id_job ` set (jobs st)"
  then have "getJobById st (id_job r) \<noteq> None"
    by (simp add: getJobById_None_iff)
  then obtain j where j: "getJobById st (id_job r) = Some j"
    by blast
  then obtain i where i: "findIndex (\<lambda>j. id_job j = id_job r) (jobs st) = Some i"
    unfolding getJobById_def by (blast dest: find_Some_findIndex)
  from findIndex_Some_find [OF i]
  have len: "i < length (jobs st)"
    and hit: "List.find (\<lambda>j. id_job j = id_job r) (jobs st) = Some (jobs st ! i)"
    by simp_all
  from find_holds [OF hit] have same: "id_job (jobs st ! i) = id_job r" .
  have upd: "jobs (updateJob st r) = (jobs st)[i := r]"
    using i by (simp add: updateJob_def)
  from len same hit upd
  show "\<exists>i < length (jobs st).
          id_job (jobs st ! i) = id_job r
          \<and> getJobById st (id_job r) = Some (jobs st ! i)
          \<and> jobs (updateJob st r) = (jobs st)[i := r]"
    unfolding getJobById_def by blast
  from upd show "length (jobs (updateJob st r)) = length (jobs st)"
    by simp
  from j show "getJobById (updateJob st r) (id_job r) = Some r"
    by (rule getJobById_updateJob_same)
  from j show "getJobById (saveJob st r) (id_job r) = getJobById st (id_job r)"
    by (simp add: getJobById_saveJob)
qed

theorem saveJob_appends_updateJob_overwrites_witness:
  "id_job (sampleJob ''job-3'' ''pending'')
     \<notin> id_job ` set (jobs (sampleStorage [sampleJob ''job-1'' ''done'', sampleJob ''job-2'' ''pending'']))
   \<and> jobs (saveJob (sampleStorage [sampleJob ''job-1'' ''done'', sampleJob ''job-2'' ''pending''])
             (sampleJob ''job-3'' ''pending''))
       = jobs (sampleStorage [sampleJob ''job-1'' ''done'', sampleJob ''job-2'' ''pending''])
           @ [sampleJob ''job-3'' ''pending'']
   \<and> getJobById (saveJob (sampleStorage [sampleJob ''job-1'' ''done'', sampleJob ''job-2'' ''pending''])
             (sampleJob ''job-3'' ''pending'')) (id_job (sampleJob ''job-3'' ''pending''))
       = Some (sampleJob ''job-3'' ''pending'')
   \<and> updateJob (sampleStorage [sampleJob ''job-1'' ''done'', sampleJob ''job-2'' ''pending''])
             (sampleJob ''job-3'' ''pending'')
       = sampleStorage [sampleJob ''job-1'' ''done'', sampleJob ''job-2'' ''pending'']
   \<and> id_job (sampleJob ''job-2'' ''running'')
     \<in> id_job ` set (jobs (sampleStorage [sampleJob ''job-1'' ''done'', sampleJob ''job-2'' ''pending'']))
   \<and> length (jobs (updateJob (sampleStorage [sampleJob ''job-1'' ''done'', sampleJob ''job-2'' ''pending''])
             (sampleJob ''job-2'' ''running''))) = 2
   \<and> getJobById (updateJob (sampleStorage [sampleJob ''job-1'' ''done'', sampleJob ''job-2'' ''pending''])
             (sampleJob ''job-2'' ''running'')) (id_job (sampleJob ''job-2'' ''running''))
       = Some (sampleJob ''job-2'' ''running'')
   \<and> getJobById (saveJob (sampleStorage [sampleJob ''job-1'' ''done'', sampleJob ''job-2'' ''pending''])
             (sampleJob ''job-2'' ''running'')) (id_job (sampleJob ''job-2'' ''running''))
       = Some (sampleJob ''job-2'' ''pending'')"
proof -
  let ?st = "sampleStorage [sampleJob ''job-1'' ''done'', sampleJob ''job-2'' ''pending'']"
  have new: "id_job (sampleJob ''job-3'' ''pending'') \<notin> id_job ` set (jobs ?st)"
    by (simp add: sampleJob_def sampleStorage_def)
  have old: "id_job (sampleJob ''job-2'' ''running'') \<in> id_job ` set (jobs ?st)"
    by (simp add: sampleJob_def sampleStorage_def)
  have two: "length (jobs ?st) = 2"
    by (simp add: sampleStorage_def)
  have before: "getJobById ?st (id_job (sampleJob ''job-2'' ''running''))
                  = Some (sampleJob ''job-2'' ''pending'')"
    by (simp add: getJobById_def sampleStorage_def sampleJob_def)
  note fresh = saveJob_appends_updateJob_overwrites [of ?st "sampleJob ''job-3'' ''pending''"]
  note known = saveJob_appends_updateJob_overwrites [of ?st "sampleJob ''job-2'' ''running''"]
  note appended = fresh [THEN conjunct1]
  note fresh_new = fresh [THEN conjunct2, THEN conjunct2, THEN conjunct1, THEN mp, OF new]
  note known_old = known [THEN conjunct2, THEN conjunct2, THEN conjunct2, THEN mp, OF old]
  note read_new = fresh_new [THEN conjunct1]
  note kept = fresh_new [THEN conjunct2, THEN conjunct1]
  note len = known_old [THEN conjunct2, THEN conjunct1, unfolded two]
  note read_old = known_old [THEN conjunct2, THEN conjunct2, THEN conjunct1]
  note dup = known_old [THEN conjunct2, THEN conjunct2, THEN conjunct2, unfolded before]
  show ?thesis
    by (intro conjI new appended read_new kept old len read_old dup)
qed

section \<open>Cancelling a job\<close>

text \<open>
  For a job that is in the storage, \<^verbatim>\<open>cancelJob\<close> answers with success and stores the
  record with status \<^verbatim>\<open>error\<close> and error \<^verbatim>\<open>Cancelled by user\<close>. A poll call for
  that id that starts on the storage so left returns it as it is and sets no timer,
  whatever its attempt number and the replies. This says nothing of a poll whose request
  was in flight when the job was cancelled; the last section has such a run.
\<close>

lemma cancelJob_then_poll:
  assumes "getJobById st jobId = Some j"
  shows "cancelJob st jobId now =
        (updateJob st (j\<lparr>status := ''error'', error := Some ''Cancelled by user'',
                          updatedAt := now\<rparr>), Inr CancelResult)"
    and "getJobById (fst (cancelJob st jobId now)) jobId =
          Some (j\<lparr>status := ''error'', error := Some ''Cancelled by user'', updatedAt := now\<rparr>)"
    and "pollJobStatus (fst (cancelJob st jobId now)) jobId base attempt t =
              (fst (cancelJob st jobId now), [])"
    and "pollRun (Suc n) (fst (cancelJob st jobId now)) jobId base attempt world =
              (fst (cancelJob st jobId now), [], None)"
proof -
  let ?c = "j\<lparr>status := ''error'', error := Some ''Cancelled by user'', updatedAt := now\<rparr>"
  show "cancelJob st jobId now = (updateJob st ?c, Inr CancelResult)"
    by (rule cancelJob_found(1) [OF assms])
  show after: "getJobById (fst (cancelJob st jobId now)) jobId = Some ?c"
    by (rule cancelJob_found(2) [OF assms])
  have terminal: "status ?c = ''done'' \<or> status ?c = ''error''"
    by simp
  show "pollJobStatus (fst (cancelJob st jobId now)) jobId base attempt t =
          (fst (cancelJob st jobId now), [])"
    by (rule pollJobStatus_terminal [OF after terminal])
  show "pollRun (Suc n) (fst (cancelJob st jobId now)) jobId base attempt world =
          (fst (cancelJob st jobId now), [], None)"
    by (rule pollRun_terminal [OF after terminal])
qed

section \<open>Submission in mock mode\<close>

text \<open>
  Claim C8. For every payload, storage and reading of the world, \<^verbatim>\<open>submitJob\<close> with
  \<^verbatim>\<open>mockMode = true\<close> issues no request and starts no poll (its list of effects is
  empty), leaves the storage as it is, and answers with a generated job id and the result
  of \<^verbatim>\<open>getMockResponse\<close>, whose \<^verbatim>\<open>circularity_score\<close> is 67, \<^verbatim>\<open>co2_kg\<close> is
  123.45 and \<^verbatim>\<open>recycled_percent\<close> is 30. The message \<^verbatim>\<open>submitJob\<close> of
  \<^verbatim>\<open>handleMessage\<close> does the same.
\<close>

theorem submitJob_mockMode:
  "submitJob st payload_in True e =
     (st,
      Inr (MockSubmitResult (generateJobId (idNowMs e) (idRandom e))
             (response_result (getMockResponse (mockNowMs e)))),
      [])
   \<and> handleMessage st (SubmitJob payload_in True) e = submitJob st payload_in True e
   \<and> jget ''circularity_score'' (response_result (getMockResponse (mockNowMs e))) = Some (JNum 67)
   \<and> jget ''co2_kg'' (response_result (getMockResponse (mockNowMs e))) = Some (JNum (12345 / 100))
   \<and> jget ''recycled_percent'' (response_result (getMockResponse (mockNowMs e))) = Some (JNum 30)"
proof -
  have "submitJob st payload_in True e =
     (st,
      Inr (MockSubmitResult (generateJobId (idNowMs e) (idRandom e))
             (response_result (getMockResponse (mockNowMs e)))),
      [])"
    by (simp add: submitJob_def)
  moreover have "handleMessage st (SubmitJob payload_in True) e = submitJob st payload_in True e"
    by (simp add: handleMessage_def)
  moreover have
    "jget ''circularity_score'' (response_result (getMockResponse (mockNowMs e))) = Some (JNum 67)"
    "jget ''co2_kg'' (response_result (getMockResponse (mockNowMs e))) = Some (JNum (12345 / 100))"
    "jget ''recycled_percent'' (response_result (getMockResponse (mockNowMs e))) = Some (JNum 30)"
    by (simp_all add: getMockResponse_def)
  ultimately show ?thesis by simp
qed

section \<open>Terminal records\<close>

text \<open>
  Claim C3 says that nothing, \<^verbatim>\<open>cancelJob\<close> included, changes the status of a record
  that is \<^verbatim>\<open>done\<close> or \<^verbatim>\<open>error\<close>. \<^verbatim>\<open>cancelJob\<close> has no test of the
  current status (lines 245-255): sent for a finished job, it turns \<^verbatim>\<open>done\<close> into
  \<^verbatim>\<open>error\<close>.
\<close>

theorem terminal_done_cancelled_counterexample:
  "map_option status (getJobById (sampleStorage [sampleDoneJob ''job-1'']) ''job-1'') = Some ''done''
   \<and> map_option status
        (getJobById
           (fst (handleMessage (sampleStorage [sampleDoneJob ''job-1'']) (CancelJob ''job-1'')
                   (sampleEnv (Rejected ''offline''))))
           ''job-1'') = Some ''error''"
  by (simp add: handleMessage_def cancelJob_def updateJob_def getJobById_def
        sampleStorage_def sampleDoneJob_def sampleJob_def sampleEnv_def)

text \<open>
  Claim C3, amended. For a job stored with status \<^verbatim>\<open>done\<close> or \<^verbatim>\<open>error\<close>:
  a poll call for its id that starts now, at any attempt number and with any replies,
  returns the storage as it is and sets no timer; a poll call for another id, and the
  resumed half of a poll of another job, leave the record as it is; so does every message
  other than \<^verbatim>\<open>cancelJob\<close> for this id (a \<^verbatim>\<open>submitJob\<close> provided the id it
  generates is not this one). \<^verbatim>\<open>cancelJob\<close> for this id rewrites the record to status
  \<^verbatim>\<open>error\<close> with error \<^verbatim>\<open>Cancelled by user\<close>: an \<^verbatim>\<open>error\<close> record keeps its
  status, a \<^verbatim>\<open>done\<close> record does not.
\<close>

theorem terminal_record_stable:
  assumes "getJobById st jobId = Some j"
    and "status j = ''done'' \<or> status j = ''error''"
  shows "pollJobStatus st jobId base attempt t = (st, [])
     \<and> (\<forall>other. other \<noteq> jobId \<longrightarrow>
           getJobById (fst (pollJobStatus st other base attempt t)) jobId = Some j)
     \<and> (\<forall>j2. id_job j2 \<noteq> jobId \<longrightarrow>
           getJobById (fst (pollResume st j2 (id_job j2) base attempt t)) jobId = Some j)
     \<and> (req \<noteq> CancelJob jobId \<and> generateJobId (idNowMs e) (idRandom e) \<noteq> jobId \<longrightarrow>
           getJobById (fst (handleMessage st req e)) jobId = Some j)
     \<and> getJobById (fst (handleMessage st (CancelJob jobId) e)) jobId =
         Some (j\<lparr>status := ''error'', error := Some ''Cancelled by user'',
                  updatedAt := isoNow1 e\<rparr>)"
proof (intro conjI allI impI)
  show "pollJobStatus st jobId base attempt t = (st, [])"
    by (rule pollJobStatus_terminal [OF assms])
  show "getJobById (fst (pollJobStatus st other base attempt t)) jobId = Some j"
    if "other \<noteq> jobId" for other
    using pollJobStatus_frame [OF that] assms(1) by simp
  show "getJobById (fst (pollResume st j2 (id_job j2) base attempt t)) jobId = Some j"
    if "id_job j2 \<noteq> jobId" for j2
    using pollResume_frame [OF that] assms(1) by simp
  show "getJobById (fst (handleMessage st req e)) jobId = Some j"
    if "req \<noteq> CancelJob jobId \<and> generateJobId (idNowMs e) (idRandom e) \<noteq> jobId"
    using that handleMessage_frame [OF assms(1)] by blast
  show "getJobById (fst (handleMessage st (CancelJob jobId) e)) jobId =
         Some (j\<lparr>status := ''error'', error := Some ''Cancelled by user'',
                  updatedAt := isoNow1 e\<rparr>)"
    unfolding handleMessage_cancel by (rule cancelJob_found(2) [OF assms(1)])
qed

theorem terminal_record_stable_witness:
  "getJobById (sampleStorage [sampleDoneJob ''job-1'', sampleJob ''job-2'' ''running'']) ''job-1''
     = Some (sampleDoneJob ''job-1'')
   \<and> status (sampleDoneJob ''job-1'') = ''done''
   \<and> pollJobStatus (sampleStorage [sampleDoneJob ''job-1'', sampleJob ''job-2'' ''running''])
        ''job-1'' ''https://lca.example'' 3 (sampleTick (statusOk ''running'') (Rejected ''offline''))
     = (sampleStorage [sampleDoneJob ''job-1'', sampleJob ''job-2'' ''running''], [])
   \<and> getJobById
        (fst (pollJobStatus (sampleStorage [sampleDoneJob ''job-1'', sampleJob ''job-2'' ''running''])
                ''job-2'' ''https://lca.example'' 3
                (sampleTick (statusOk ''running'') (Rejected ''offline''))))
        ''job-1''
     = Some (sampleDoneJob ''job-1'')
   \<and> getJobById
        (fst (handleMessage (sampleStorage [sampleDoneJob ''job-1'', sampleJob ''job-2'' ''running''])
                (SubmitJob [] False)
                (sampleEnv (Resolved True 200 ''OK'' (Inr (SubmitData None))))))
        ''job-1''
     = Some (sampleDoneJob ''job-1'')
   \<and> getJobById
        (fst (handleMessage (sampleStorage [sampleDoneJob ''job-1'', sampleJob ''job-2'' ''running''])
                (CancelJob ''job-1'')
                (sampleEnv (Resolved True 200 ''OK'' (Inr (SubmitData None))))))
        ''job-1''
     = Some ((sampleDoneJob ''job-1'')
              \<lparr>status := ''error'', error := Some ''Cancelled by user'',
               updatedAt := ''2024-01-01T00:00:01.000Z''\<rparr>)"
proof -
  let ?st = "sampleStorage [sampleDoneJob ''job-1'', sampleJob ''job-2'' ''running'']"
  let ?t = "sampleTick (statusOk ''running'') (Rejected ''offline'')"
  let ?e = "sampleEnv (Resolved True 200 ''OK'' (Inr (SubmitData None)))"
  have found: "getJobById ?st ''job-1'' = Some (sampleDoneJob ''job-1'')"
    by (simp add: getJobById_def sampleStorage_def sampleDoneJob_def sampleJob_def)
  have finished: "status (sampleDoneJob ''job-1'') = ''done''"
    by (simp add: sampleDoneJob_def sampleJob_def)
  have fresh: "generateJobId (idNowMs ?e) (idRandom ?e) \<noteq> ''job-1''"
    by (simp add: generateJobId_def sampleEnv_def show_nat.simps)
  have now: "isoNow1 ?e = ''2024-01-01T00:00:01.000Z''"
    by (simp add: sampleEnv_def)
  note all = terminal_record_stable [OF found disjI1 [OF finished],
      of "''https://lca.example''" 3 ?t "SubmitJob [] False" ?e]
  note polled = all [THEN conjunct1]
  have other: "getJobById (fst (pollJobStatus ?st ''job-2'' ''https://lca.example'' 3 ?t)) ''job-1''
     = Some (sampleDoneJob ''job-1'')"
    by (rule all [THEN conjunct2, THEN conjunct1, rule_format]) simp
  have submitted: "getJobById (fst (handleMessage ?st (SubmitJob [] False) ?e)) ''job-1''
     = Some (sampleDoneJob ''job-1'')"
    by (rule all [THEN conjunct2, THEN conjunct2, THEN conjunct2, THEN conjunct1, rule_format])
       (simp add: fresh)
  note cancelled = all [THEN conjunct2, THEN conjunct2, THEN conjunct2, THEN conjunct2,
      unfolded now]
  show ?thesis
    by (intro conjI found finished polled other submitted cancelled)
qed

section \<open>The time-out of the poll loop\<close>

text \<open>
  Claim C5. Take a job stored as \<^verbatim>\<open>pending\<close> or \<^verbatim>\<open>running\<close> whose every status
  request is answered with \<^verbatim>\<open>running\<close>, and let its poll loop run from attempt 0.
  After each of the first \<^verbatim>\<open>POLL_MAX_ATTEMPTS\<close> = 60 calls the stored status is
  \<^verbatim>\<open>running\<close>, a timer for the next attempt is pending, and as many status requests
  have been sent as calls were made. The next call, the one for attempt 60, sends no
  request, stores status \<^verbatim>\<open>error\<close> with error
  \<^verbatim>\<open>Timeout: Job did not complete in time\<close> and sets no timer: the loop has ended after
  exactly 60 status requests, and letting it run on changes nothing.
\<close>

theorem poll_loop_times_out_after_max_attempts:
  assumes "getJobById st jobId = Some j"
    and "status j = ''pending'' \<or> status j = ''running''"
    and "\<forall>a. reportsRunning (statusReply (world a))"
  shows "(\<forall>n. 0 < n \<and> n \<le> POLL_MAX_ATTEMPTS \<longrightarrow>
            (\<exists>st' es j'.
               pollRun n st jobId base 0 world = (st', es, Some n)
               \<and> getJobById st' jobId = Some j'
               \<and> status j' = ''running''
               \<and> requests es = n))
       \<and> (\<forall>n. POLL_MAX_ATTEMPTS < n \<longrightarrow>
            (\<exists>st' es j'.
               pollRun n st jobId base 0 world = (st', es, None)
               \<and> getJobById st' jobId = Some j'
               \<and> status j' = ''error''
               \<and> error j' = Some ''Timeout: Job did not complete in time''
               \<and> requests es = POLL_MAX_ATTEMPTS))"
proof (intro conjI allI impI)
  fix n
  assume n: "0 < n \<and> n \<le> POLL_MAX_ATTEMPTS"
  then have "0 + n \<le> POLL_MAX_ATTEMPTS" by simp
  from pollRun_running [OF assms(1) assms(2) this assms(3), where base = base] n
  show "\<exists>st' es j'.
          pollRun n st jobId base 0 world = (st', es, Some n)
          \<and> getJobById st' jobId = Some j'
          \<and> status j' = ''running''
          \<and> requests es = n"
    by fastforce
next
  fix n
  assume "POLL_MAX_ATTEMPTS < n"
  then obtain k where n: "n = POLL_MAX_ATTEMPTS + Suc k"
    by (metis less_imp_Suc_add add_Suc_right)
  have "0 + POLL_MAX_ATTEMPTS \<le> POLL_MAX_ATTEMPTS" by simp
  from pollRun_running [OF assms(1) assms(2) this assms(3), where base = base]
  obtain st1 es1 j1 where
    first: "pollRun POLL_MAX_ATTEMPTS st jobId base 0 world = (st1, es1, Some POLL_MAX_ATTEMPTS)"
    and found1: "getJobById st1 jobId = Some j1"
    and live1: "status j1 = ''pending'' \<or> status j1 = ''running''"
    and req1: "requests es1 = POLL_MAX_ATTEMPTS"
    by auto
  let ?j = "j1\<lparr>status := ''error'', error := Some ''Timeout: Job did not complete in time'',
                 updatedAt := pollNow (world POLL_MAX_ATTEMPTS)\<rparr>"
  have last: "pollJobStatus st1 jobId base POLL_MAX_ATTEMPTS (world POLL_MAX_ATTEMPTS) =
                (updateJob st1 ?j, [])"
    by (rule pollJobStatus_timeout [OF found1 live1]) simp
  have id: "id_job ?j = jobId"
    using getJobById_id [OF found1] by simp
  have stored: "getJobById (updateJob st1 ?j) jobId = Some ?j"
    using getJobById_updateJob_same [of st1 ?j j1] found1 id by simp
  have "pollRun n st jobId base 0 world = (updateJob st1 ?j, es1, None)"
    unfolding n pollRun_add by (simp add: first last)
  with stored req1 show "\<exists>st' es j'.
          pollRun n st jobId base 0 world = (st', es, None)
          \<and> getJobById st' jobId = Some j'
          \<and> status j' = ''error''
          \<and> error j' = Some ''Timeout: Job did not complete in time''
          \<and> requests es = POLL_MAX_ATTEMPTS"
    by simp
qed

theorem poll_loop_times_out_after_max_attempts_witness:
  "getJobById (sampleStorage [sampleJob ''job-1'' ''pending'']) ''job-1''
     = Some (sampleJob ''job-1'' ''pending'')
   \<and> status (sampleJob ''job-1'' ''pending'') = ''pending''
   \<and> reportsRunning (statusReply (sampleTick (statusOk ''running'') (Rejected ''offline'')))
   \<and> (\<exists>st' es j'.
         pollRun 60 (sampleStorage [sampleJob ''job-1'' ''pending'']) ''job-1''
           ''https://lca.example'' 0 (\<lambda>a. sampleTick (statusOk ''running'') (Rejected ''offline''))
           = (st', es, Some 60)
         \<and> getJobById st' ''job-1'' = Some j'
         \<and> status j' = ''running''
         \<and> requests es = 60)
   \<and> (\<exists>st' es j'.
         pollRun 61 (sampleStorage [sampleJob ''job-1'' ''pending'']) ''job-1''
           ''https://lca.example'' 0 (\<lambda>a. sampleTick (statusOk ''running'') (Rejected ''offline''))
           = (st', es, None)
         \<and> getJobById st' ''job-1'' = Some j'
         \<and> status j' = ''error''
         \<and> error j' = Some ''Timeout: Job did not complete in time''
         \<and> requests es = 60)"
proof -
  let ?st = "sampleStorage [sampleJob ''job-1'' ''pending'']"
  let ?world = "\<lambda>a::nat. sampleTick (statusOk ''running'') (Rejected ''offline'')"
  have found: "getJobById ?st ''job-1'' = Some (sampleJob ''job-1'' ''pending'')"
    by (simp add: getJobById_def sampleStorage_def sampleJob_def)
  have pending: "status (sampleJob ''job-1'' ''pending'') = ''pending''"
    by (simp add: sampleJob_def)
  have running: "reportsRunning (statusReply (sampleTick (statusOk ''running'') (Rejected ''offline'')))"
    by (simp add: sampleTick_def statusOk_def)
  then have always: "\<forall>a. reportsRunning (statusReply (?world a))"
    by simp
  note all = poll_loop_times_out_after_max_attempts [OF found disjI1 [OF pending] always,
      of "''https://lca.example''"]
  have sixty: "\<exists>st' es j'.
         pollRun 60 ?st ''job-1'' ''https://lca.example'' 0 ?world = (st', es, Some 60)
         \<and> getJobById st' ''job-1'' = Some j'
         \<and> status j' = ''running''
         \<and> requests es = 60"
    using all [THEN conjunct1, rule_format, of 60] by (simp add: POLL_MAX_ATTEMPTS_def)
  have sixtyone: "\<exists>st' es j'.
         pollRun 61 ?st ''job-1'' ''https://lca.example'' 0 ?world = (st', es, None)
         \<and> getJobById st' ''job-1'' = Some j'
         \<and> status j' = ''error''
         \<and> error j' = Some ''Timeout: Job did not complete in time''
         \<and> requests es = 60"
    using all [THEN conjunct2, rule_format, of 61] by (simp add: POLL_MAX_ATTEMPTS_def)
  show ?thesis
    by (intro conjI found pending running sixty sixtyone)
qed

section \<open>Runs on which the script departs from its specification\<close>

text \<open>
  Claim C1 says that a poll which is told \<^verbatim>\<open>done\<close> but cannot fetch the result does not
  store \<^verbatim>\<open>done\<close> with a null result, the record staying in its last polled status.
  The script stores it when the result request is answered with an HTTP error: line 193
  only skips the assignment of \<^verbatim>\<open>job.result\<close>, and line 200 writes the job, whose
  status was set to \<^verbatim>\<open>done\<close> at line 181; no timer is set, so the record stays that
  way. (The status request and the submit request throw on such a response, lines 174-176
  and 105-107; when the result request is rejected outright the call ends in the catch block
  and nothing is stored.) Here a running job is polled at attempt 2, the status reply is
  \<^verbatim>\<open>done\<close> and the result reply is HTTP 500.
\<close>

theorem done_stored_without_result:
  "map_option (\<lambda>j. (status j, result j))
     (getJobById (sampleStorage [sampleJob ''job-1'' ''running'']) ''job-1'')
     = Some (''running'', JNull)
   \<and> pollJobStatus (sampleStorage [sampleJob ''job-1'' ''running'']) ''job-1''
         ''https://lca.example'' 2
         (sampleTick (statusOk ''done'')
            (Resolved False 500 ''Internal Server Error'' (Inl ''body not read'')))
     = (sampleStorage
          [(sampleJob ''job-1'' ''running'')
             \<lparr>status := ''done'', updatedAt := ''2024-01-01T00:00:05.000Z''\<rparr>],
        [Request ''GET'' ''https://lca.example/lca/status/job-1'',
         Request ''GET'' ''https://lca.example/lca/result/job-1''])
   \<and> map_option (\<lambda>j. (status j, result j))
       (getJobById
          (fst (pollJobStatus (sampleStorage [sampleJob ''job-1'' ''running'']) ''job-1''
                  ''https://lca.example'' 2
                  (sampleTick (statusOk ''done'')
                     (Resolved False 500 ''Internal Server Error'' (Inl ''body not read'')))))
          ''job-1'')
     = Some (''done'', JNull)"
  by (simp add: pollJobStatus_def pollBegin_def pollResume_def pollCommit_def pollRetry_def
        updateJob_def getJobById_def orElse_def POLL_MAX_ATTEMPTS_def
        sampleStorage_def sampleJob_def sampleTick_def statusOk_def)

text \<open>
  Claim C2 says that every stored record that is reachable has a result when its status is
  \<^verbatim>\<open>done\<close>. The run below starts from an empty collection: the message
  \<^verbatim>\<open>submitJob\<close> is accepted by the backend, and the poll it starts (attempt 0) is told
  \<^verbatim>\<open>done\<close> while the result request is answered with HTTP 404. The stored record then
  has status \<^verbatim>\<open>done\<close>, a null result and a null error. This is the defect of claim C1.
\<close>

theorem submitted_job_reaches_done_without_result:
  "handleMessage (sampleStorage [])
      (SubmitJob [(''url'', JStr ''https://example.com''), (''raw_text'', JStr ''hello'')] False)
      (sampleEnv (Resolved True 200 ''OK'' (Inr (SubmitData (Some ''job-123'')))))
     = (sampleStorage
          [\<lparr>id_job = ''job-1700000000001-k3x9q2m1z'',
            url = Some (JStr ''https://example.com''),
            payload = [(''url'', JStr ''https://example.com''), (''raw_text'', JStr ''hello''),
                       (''job_id'', JStr ''job-1700000000001-k3x9q2m1z'')],
            status = ''pending'',
            createdAt = ''2024-01-01T00:00:01.000Z'', updatedAt = ''2024-01-01T00:00:02.000Z'',
            retries = 0, error = None, result = JNull,
            backendJobId = Some ''job-123'', progress = None\<rparr>],
        Inr (SubmitResult ''job-1700000000001-k3x9q2m1z'' ''job-123''),
        [Request ''POST'' ''https://lca.example/lca/submit'',
         Poll ''job-1700000000001-k3x9q2m1z'' ''https://lca.example'' 0])
   \<and> map_option (\<lambda>j. (status j, result j, error j))
       (getJobById
          (fst (pollJobStatus
                  (fst (handleMessage (sampleStorage [])
                          (SubmitJob [(''url'', JStr ''https://example.com''),
                                      (''raw_text'', JStr ''hello'')] False)
                          (sampleEnv (Resolved True 200 ''OK'' (Inr (SubmitData (Some ''job-123'')))))))
                  ''job-1700000000001-k3x9q2m1z'' ''https://lca.example'' 0
                  (sampleTick (statusOk ''done'')
                     (Resolved False 404 ''Not Found'' (Inl ''body not read'')))))
          ''job-1700000000001-k3x9q2m1z'')
     = Some (''done'', JNull, None)"
  by (simp add: handleMessage_def submitJob_def submitFailed_def saveJob_def generateJobId_def
        show_nat.simps falsy_def Let_def
        pollJobStatus_def pollBegin_def pollResume_def pollCommit_def pollRetry_def
        updateJob_def getJobById_def orElse_def POLL_MAX_ATTEMPTS_def
        sampleStorage_def sampleEnv_def sampleTick_def statusOk_def)

text \<open>
  Claim C6 says that on every path that sets the timer, the failure path included, the delay
  after attempt \<open>n\<close> is \<^verbatim>\<open>POLL_INTERVAL_MS\<close> times \<^verbatim>\<open>BACKOFF_MULTIPLIER\<close> to the
  power \<open>min n 5\<close>. Line 204 (a successful poll of a job still running) caps the exponent;
  line 211 (the catch block) does not. At attempt 6 a rejected status request sets a timer of
  22781.25 ms, a successful one sets the capped 15187.5 ms.
\<close>

theorem retry_delay_not_capped:
  "snd (pollJobStatus (sampleStorage [sampleJob ''job-1'' ''running'']) ''job-1''
          ''https://lca.example'' 6
          (sampleTick (Rejected ''Failed to fetch'') (Rejected ''Failed to fetch'')))
     = [Request ''GET'' ''https://lca.example/lca/status/job-1'',
        Timer (91125 / 4) ''job-1'' ''https://lca.example'' 7]
   \<and> snd (pollJobStatus (sampleStorage [sampleJob ''job-1'' ''running'']) ''job-1''
          ''https://lca.example'' 6
          (sampleTick (statusOk ''running'') (Rejected ''Failed to fetch'')))
     = [Request ''GET'' ''https://lca.example/lca/status/job-1'',
        Timer (30375 / 2) ''job-1'' ''https://lca.example'' 7]
   \<and> POLL_INTERVAL_MS * BACKOFF_MULTIPLIER ^ min 6 5 = 30375 / 2
   \<and> (91125 / 4 :: rat) \<noteq> 30375 / 2"
  by (simp add: pollJobStatus_def pollBegin_def pollResume_def pollCommit_def pollRetry_def
        backoff_def POLL_INTERVAL_MS_def BACKOFF_MULTIPLIER_def
        updateJob_def getJobById_def orElse_def POLL_MAX_ATTEMPTS_def
        sampleStorage_def sampleJob_def sampleTick_def statusOk_def power_numeral_reduce)

text \<open>
  Claim C9 says that the reply to a request that was in flight when the job was cancelled
  is discarded. In the script the suspended call holds the job object it read before the
  request (line 157) and writes it back after the reply (line 200) without reading the
  storage again. Below, the poll of a running job begins (attempt 2), the job is cancelled
  and stored as \<^verbatim>\<open>error\<close>, then the reply \<^verbatim>\<open>running\<close> arrives: the resumed call
  overwrites the cancelled record with a \<^verbatim>\<open>running\<close> one whose error is null, and sets
  the timer for attempt 3.
\<close>

theorem cancelled_job_resurrected_by_poll_in_flight:
  "pollBegin (sampleStorage [sampleJob ''job-1'' ''running'']) ''job-1'' ''https://lca.example'' 2
      ''2024-01-01T00:00:04.000Z''
     = (sampleStorage [sampleJob ''job-1'' ''running''], Some (sampleJob ''job-1'' ''running''),
        [Request ''GET'' ''https://lca.example/lca/status/job-1''])
   \<and> cancelJob (sampleStorage [sampleJob ''job-1'' ''running'']) ''job-1''
       ''2024-01-01T00:00:04.500Z''
     = (sampleStorage
          [(sampleJob ''job-1'' ''running'')
             \<lparr>status := ''error'', error := Some ''Cancelled by user'',
              updatedAt := ''2024-01-01T00:00:04.500Z''\<rparr>],
        Inr CancelResult)
   \<and> pollResume
       (fst (cancelJob (sampleStorage [sampleJob ''job-1'' ''running'']) ''job-1''
               ''2024-01-01T00:00:04.500Z''))
       (sampleJob ''job-1'' ''running'') ''job-1'' ''https://lca.example'' 2
       (sampleTick (statusOk ''running'') (Rejected ''Failed to fetch''))
     = (sampleStorage
          [(sampleJob ''job-1'' ''running'')\<lparr>updatedAt := ''2024-01-01T00:00:05.000Z''\<rparr>],
        [Timer 4500 ''job-1'' ''https://lca.example'' 3])"
  by (simp add: pollBegin_def pollResume_def pollCommit_def pollRetry_def cancelJob_def
        backoff_def POLL_INTERVAL_MS_def BACKOFF_MULTIPLIER_def
        updateJob_def getJobById_def orElse_def POLL_MAX_ATTEMPTS_def
        sampleStorage_def sampleJob_def sampleTick_def statusOk_def power_numeral_reduce)

text \<open>
  Claim C4 says that \<^verbatim>\<open>cancelJob\<close> on a pending or running job stores status
  \<^verbatim>\<open>error\<close> with error \<^verbatim>\<open>Cancelled by user\<close>, that it throws and writes nothing
  for an unknown id, and that no poll after the cancellation changes the status. The first
  two hold. The third fails by the defect of claim C9: when a poll's request is in flight at
  the time of the cancellation, the resumed call stores \<^verbatim>\<open>running\<close> again and sets the
  timer for the next attempt; the call that timer makes starts after the cancellation, finds
  the job \<^verbatim>\<open>running\<close>, and stores what the backend says. Below, the job cancelled at
  attempt 2 is \<^verbatim>\<open>done\<close>, with a result and a null error, after the call for attempt 3.
\<close>

theorem cancelled_job_status_changed_by_later_poll:
  "pollBegin (sampleStorage [sampleJob ''job-1'' ''running'']) ''job-1'' ''https://lca.example'' 2
      ''2024-01-01T00:00:04.000Z''
     = (sampleStorage [sampleJob ''job-1'' ''running''], Some (sampleJob ''job-1'' ''running''),
        [Request ''GET'' ''https://lca.example/lca/status/job-1''])
   \<and> map_option (\<lambda>j. (status j, error j))
       (getJobById
          (fst (cancelJob (sampleStorage [sampleJob ''job-1'' ''running'']) ''job-1''
                  ''2024-01-01T00:00:04.500Z''))
          ''job-1'')
     = Some (''error'', Some ''Cancelled by user'')
   \<and> snd (pollResume
            (fst (cancelJob (sampleStorage [sampleJob ''job-1'' ''running'']) ''job-1''
                    ''2024-01-01T00:00:04.500Z''))
            (sampleJob ''job-1'' ''running'') ''job-1'' ''https://lca.example'' 2
            (sampleTick (statusOk ''running'') (Rejected ''Failed to fetch'')))
     = [Timer 4500 ''job-1'' ''https://lca.example'' 3]
   \<and> map_option (\<lambda>j. (status j, error j, result j))
       (getJobById
          (fst (pollJobStatus
                  (fst (pollResume
                          (fst (cancelJob (sampleStorage [sampleJob ''job-1'' ''running''])
                                  ''job-1'' ''2024-01-01T00:00:04.500Z''))
                          (sampleJob ''job-1'' ''running'') ''job-1'' ''https://lca.example'' 2
                          (sampleTick (statusOk ''running'') (Rejected ''Failed to fetch''))))
                  ''job-1'' ''https://lca.example'' 3
                  (sampleTick (statusOk ''done'')
                     (Resolved True 200 ''OK'' (Inr (JObj [(''co2_kg'', JNum 80)]))))))
          ''job-1'')
     = Some (''done'', None, JObj [(''co2_kg'', JNum 80)])"
  by (simp add: pollJobStatus_def pollBegin_def pollResume_def pollCommit_def pollRetry_def
        cancelJob_def backoff_def POLL_INTERVAL_MS_def BACKOFF_MULTIPLIER_def
        updateJob_def getJobById_def orElse_def POLL_MAX_ATTEMPTS_def
        sampleStorage_def sampleJob_def sampleTick_def statusOk_def power_numeral_reduce)

end
